theory Spec2Isabelle
  imports Complex_Main "HOL-Library.Sublist"
begin

section \<open>Numbers and dictionaries\<close>

text \<open>
  Python floats are modelled as exact rationals: every sum, product and quotient of the
  source is the exact one, and \<^verbatim>\<open>round(x, n)\<close> is rounding to \<open>n\<close> decimal places with
  ties going to the even neighbour. Binary representation error is outside the model.
\<close>

definition round_half_even :: "rat \<Rightarrow> int" where
  "round_half_even s =
     (let f = \<lfloor>s\<rfloor>; d = s - of_int f
      in if d < 1 / 2 then f
         else if 1 / 2 < d then f + 1
         else if even f then f else f + 1)"

definition py_round :: "nat \<Rightarrow> rat \<Rightarrow> rat" where
  "py_round n x = of_int (round_half_even (x * 10 ^ n)) / 10 ^ n"

text \<open>
  A Python \<^verbatim>\<open>dict\<close> with string keys is an association list in insertion order;
  \<^verbatim>\<open>d.get(k, default)\<close> is \<open>dict_get\<close>, \<^verbatim>\<open>d.items()\<close> is the list itself.
\<close>

type_synonym 'v dict = "(string \<times> 'v) list"

definition dict_get :: "'v dict \<Rightarrow> string \<Rightarrow> 'v \<Rightarrow> 'v" where
  "dict_get d k dflt = (case map_of d k of None \<Rightarrow> dflt | Some v \<Rightarrow> v)"

section \<open>scoring/aggregator.py: the result type\<close>

record source_entry =
  se_count :: nat
  se_sentiment :: "rat dict"
  se_emotions :: "rat dict"
  se_weight :: rat

record AggregatedResult =
  items_analyzed :: int
  sentiment :: "rat dict"
  emotions :: "rat dict"
  source_breakdown :: "source_entry dict"
  dominant_emotion :: string
  avg_compound :: rat

text \<open>\<^verbatim>\<open>AggregatedResult()\<close>: every field at its dataclass default.\<close>

definition AggregatedResult_default :: AggregatedResult where
  "AggregatedResult_default =
     \<lparr>items_analyzed = 0, sentiment = [], emotions = [], source_breakdown = [],
      dominant_emotion = ''neutral'', avg_compound = 0\<rparr>"

section \<open>collectors/base.py and the classifier results\<close>

record CollectedItem =
  item_text :: string
  source_name :: string
  source_category :: string
  url :: "string option"
  title :: "string option"

text \<open>
  The field \<open>item_text\<close> is the dataclass field \<^verbatim>\<open>text\<close>.
  The property \<^verbatim>\<open>combined_text\<close>: an absent or empty title, and an empty text,
  contribute nothing; the parts are joined by one space.
\<close>

definition combined_text :: "CollectedItem \<Rightarrow> string" where
  "combined_text item =
     (let parts = (case title item of None \<Rightarrow> [] | Some t \<Rightarrow> if t = [] then [] else [t])
                  @ (if item_text item = [] then [] else [item_text item])
      in case parts of [] \<Rightarrow> [] | [p] \<Rightarrow> p | p # q # _ \<Rightarrow> p @ '' '' @ q)"

record SentimentResult =
  positive :: rat
  neutral :: rat
  negative :: rat
  compound :: rat

record EmotionResult =
  scores :: "rat dict"
  er_dominant_emotion :: string

definition EMOTION_CATEGORIES :: "string list" where
  "EMOTION_CATEGORIES =
     [''joy'', ''anger'', ''fear'', ''sadness'',
      ''surprise'', ''disgust'', ''trust'', ''anticipation'']"

text \<open>
  \<^verbatim>\<open>max(d, key=d.get)\<close>: the keys are visited in insertion order and the candidate is
  replaced only by a strictly greater value, so the first maximal key wins. On an empty
  dictionary Python raises \<^verbatim>\<open>ValueError\<close>.
\<close>

fun max_key_from :: "string \<times> rat \<Rightarrow> rat dict \<Rightarrow> string" where
  "max_key_from best [] = fst best"
| "max_key_from best (kv # rest) =
     (if snd best < snd kv then max_key_from kv rest else max_key_from best rest)"

datatype py_error = IndexError | TypeError | ValueError

definition max_key :: "rat dict \<Rightarrow> py_error + string" where
  "max_key d = (case d of [] \<Rightarrow> Inl ValueError | kv # rest \<Rightarrow> Inr (max_key_from kv rest))"

section \<open>scoring/aggregator.py\<close>

record Aggregator =
  agg_source_weights :: "rat dict"

text \<open>
  \<^verbatim>\<open>source_groups[item.source_category].append(i)\<close> on a \<^verbatim>\<open>defaultdict(list)\<close>:
  a new category is appended at the end, a known one gets the index appended to its list.
\<close>

definition group_append :: "(nat list) dict \<Rightarrow> string \<Rightarrow> nat \<Rightarrow> (nat list) dict" where
  "group_append g k i =
     (if k \<in> set (map fst g)
      then map (\<lambda>(k', ixs). if k' = k then (k', ixs @ [i]) else (k', ixs)) g
      else g @ [(k, [i])])"

definition source_groups :: "CollectedItem list \<Rightarrow> (nat list) dict" where
  "source_groups items =
     foldl (\<lambda>g (i, item). group_append g (source_category item) i) []
       (zip [0 ..< length items] items)"

definition mean_over :: "nat \<Rightarrow> rat list \<Rightarrow> rat" where
  "mean_over n vs = sum_list vs / of_nat n"

definition source_entry_of ::
  "Aggregator \<Rightarrow> SentimentResult list \<Rightarrow> EmotionResult list \<Rightarrow> string \<Rightarrow> nat list
     \<Rightarrow> source_entry" where
  "source_entry_of ag sentiments emos source_cat indices =
     (let src_n = length indices
      in \<lparr>se_count = src_n,
          se_sentiment =
            [(''positive'', py_round 4 (mean_over src_n (map (\<lambda>i. positive (sentiments ! i)) indices))),
             (''neutral'', py_round 4 (mean_over src_n (map (\<lambda>i. neutral (sentiments ! i)) indices))),
             (''negative'', py_round 4 (mean_over src_n (map (\<lambda>i. negative (sentiments ! i)) indices)))],
          se_emotions =
            map (\<lambda>emotion. (emotion,
                   py_round 4 (mean_over src_n
                     (map (\<lambda>i. dict_get (scores (emos ! i)) emotion 0) indices))))
              EMOTION_CATEGORIES,
          se_weight = dict_get (agg_source_weights ag) source_cat 0\<rparr>)"

text \<open>
  The corpus-wide emotion means: rounded to 4 places, then divided by their total and
  rounded again when the total is positive.
\<close>

definition global_emotion_means :: "nat \<Rightarrow> EmotionResult list \<Rightarrow> rat dict" where
  "global_emotion_means n emos =
     map (\<lambda>emotion. (emotion,
            py_round 4 (mean_over n (map (\<lambda>e. dict_get (scores e) emotion 0) emos))))
       EMOTION_CATEGORIES"

definition normalize_emotions :: "rat dict \<Rightarrow> rat dict" where
  "normalize_emotions global_emotions =
     (let emo_total = sum_list (map snd global_emotions)
      in if 0 < emo_total
         then map (\<lambda>(k, v). (k, py_round 4 (v / emo_total))) global_emotions
         else global_emotions)"

text \<open>
  \<^verbatim>\<open>Aggregator.aggregate\<close>. The per-source loop reads \<^verbatim>\<open>sentiments[i]\<close> and
  \<^verbatim>\<open>emotions[i]\<close> for every index of \<^verbatim>\<open>items\<close>, so a shorter sequence raises
  \<^verbatim>\<open>IndexError\<close>.
\<close>

definition aggregate ::
  "Aggregator \<Rightarrow> CollectedItem list \<Rightarrow> SentimentResult list \<Rightarrow> EmotionResult list
     \<Rightarrow> py_error + AggregatedResult" where
  "aggregate ag items sentiments emos =
     (if items = [] then Inr AggregatedResult_default
      else
        (let n = length items;
             global_sentiment =
               [(''positive'', py_round 4 (mean_over n (map positive sentiments))),
                (''neutral'', py_round 4 (mean_over n (map neutral sentiments))),
                (''negative'', py_round 4 (mean_over n (map negative sentiments)))];
             global_emotions = normalize_emotions (global_emotion_means n emos)
         in case max_key global_emotions of
              Inl err \<Rightarrow> Inl err
            | Inr dominant \<Rightarrow>
                if length sentiments < n \<or> length emos < n then Inl IndexError
                else Inr
                  \<lparr>items_analyzed = int n,
                   sentiment = global_sentiment,
                   emotions = global_emotions,
                   source_breakdown =
                     map (\<lambda>(source_cat, indices).
                            (source_cat, source_entry_of ag sentiments emos source_cat indices))
                       (source_groups items),
                   dominant_emotion = dominant,
                   avg_compound = py_round 4 (mean_over n (map compound sentiments))\<rparr>))"

section \<open>Characters and regular expressions\<close>

text \<open>
  Strings are lists of 8-bit characters and the model covers ASCII text. \<open>is_space\<close>
  is Python's \<^verbatim>\<open>\s\<close> and \<^verbatim>\<open>str.isspace\<close> on ASCII (tab, LF, VT, FF, CR, the four
  separators 28 to 31, and space); \<open>is_word\<close> is \<^verbatim>\<open>\w\<close> on ASCII.
\<close>

definition is_space :: "char \<Rightarrow> bool" where
  "is_space c = (let n = (of_char c :: nat) in (9 \<le> n \<and> n \<le> 13) \<or> (28 \<le> n \<and> n \<le> 32))"

definition is_lower :: "char \<Rightarrow> bool" where
  "is_lower c = (let n = (of_char c :: nat) in 97 \<le> n \<and> n \<le> 122)"

definition is_upper :: "char \<Rightarrow> bool" where
  "is_upper c = (let n = (of_char c :: nat) in 65 \<le> n \<and> n \<le> 90)"

definition is_digit :: "char \<Rightarrow> bool" where
  "is_digit c = (let n = (of_char c :: nat) in 48 \<le> n \<and> n \<le> 57)"

definition is_word :: "char \<Rightarrow> bool" where
  "is_word c = (is_lower c \<or> is_upper c \<or> is_digit c \<or> c = CHR ''_'')"

definition lower_char :: "char \<Rightarrow> char" where
  "lower_char c = (if is_upper c then char_of (of_char c + (32 :: nat)) else c)"

definition lower :: "string \<Rightarrow> string" where
  "lower s = map lower_char s"

definition strip :: "string \<Rightarrow> string" where
  "strip s = rev (dropWhile is_space (rev (dropWhile is_space s)))"

text \<open>
  \<^verbatim>\<open>pattern.sub(repl, s)\<close> for a pattern that cannot match the empty string: the
  matcher gives the length of the match that starts at the head of the remaining input,
  0 when there is none; a match is replaced and scanning goes on behind it.
\<close>

function re_sub :: "(string \<Rightarrow> nat) \<Rightarrow> string \<Rightarrow> string \<Rightarrow> string" where
  "re_sub m repl [] = []"
| "re_sub m repl (c # cs) =
     (if m (c # cs) = 0 then c # re_sub m repl cs
      else repl @ re_sub m repl (drop (m (c # cs)) (c # cs)))"
  by pat_completeness auto
termination
  by (relation "measure (\<lambda>(m, repl, s). length s)") auto

text \<open>\<^verbatim>\<open><[^>]+>\<close>: an opening bracket, at least one other character, the next closing bracket.\<close>

definition html_tag_match :: "string \<Rightarrow> nat" where
  "html_tag_match s =
     (case s of
        [] \<Rightarrow> 0
      | c # cs \<Rightarrow>
          (let body = takeWhile (\<lambda>x. x \<noteq> CHR ''>'') cs
           in if c = CHR ''<'' \<and> body \<noteq> [] \<and> length body < length cs
              then length body + 2 else 0))"

text \<open>\<^verbatim>\<open>https?://\S+|www\.\S+\<close>: the prefix and then every character up to the next space.\<close>

definition url_match :: "string \<Rightarrow> nat" where
  "url_match s =
     (let tail_len = (\<lambda>k. length (takeWhile (\<lambda>x. \<not> is_space x) (drop k s)))
      in if take 8 s = ''https://'' \<and> 0 < tail_len 8 then 8 + tail_len 8
         else if take 7 s = ''http://'' \<and> 0 < tail_len 7 then 7 + tail_len 7
         else if take 4 s = ''www.'' \<and> 0 < tail_len 4 then 4 + tail_len 4
         else 0)"

text \<open>\<^verbatim>\<open>[^\w\s.,!?;:'\"-]\<close>: a character outside the allow-list.\<close>

definition special_char :: "char \<Rightarrow> bool" where
  "special_char c =
     (\<not> (is_word c \<or> is_space c \<or> c \<in> set ''.,!?;:'' \<or> c = CHR 0x27 \<or> c = CHR 0x22
          \<or> c = CHR ''-''))"

definition special_match :: "string \<Rightarrow> nat" where
  "special_match s = (case s of [] \<Rightarrow> 0 | c # _ \<Rightarrow> if special_char c then 1 else 0)"

text \<open>\<^verbatim>\<open>\s+\<close>: a maximal run of spaces.\<close>

definition multi_space_match :: "string \<Rightarrow> nat" where
  "multi_space_match s = length (takeWhile is_space s)"

text \<open>\<^verbatim>\<open>s[:m]\<close>: a negative bound counts from the end.\<close>

definition slice_to :: "int \<Rightarrow> string \<Rightarrow> string" where
  "slice_to m s = (if 0 \<le> m then take (nat m) s else take (length s - nat (- m)) s)"

section \<open>processors/cleaner.py\<close>

record TextCleaner =
  min_length :: int
  max_length :: int

text \<open>
  \<^verbatim>\<open>TextCleaner.clean\<close>. \<^verbatim>\<open>html.unescape\<close> belongs to the standard library and is a
  parameter of the model. \<open>None\<close> is Python's \<^verbatim>\<open>None\<close>.
\<close>

definition clean :: "(string \<Rightarrow> string) \<Rightarrow> TextCleaner \<Rightarrow> string \<Rightarrow> string option" where
  "clean unescape tc txt =
     (if txt = [] then None
      else
        (let t1 = unescape txt;
             t2 = re_sub html_tag_match '' '' t1;
             t3 = re_sub url_match [] t2;
             t4 = re_sub special_match '' '' t3;
             t5 = strip (re_sub multi_space_match '' '' t4);
             t6 = (if max_length tc < int (length t5) then slice_to (max_length tc) t5 else t5)
         in if int (length t6) < min_length tc then None else Some t6))"

definition clean_batch :: "(string \<Rightarrow> string) \<Rightarrow> TextCleaner \<Rightarrow> string list \<Rightarrow> string list" where
  "clean_batch unescape tc texts = List.map_filter (clean unescape tc) texts"

section \<open>processors/dedup.py\<close>

text \<open>
  The only attribute that outlives a call is \<^verbatim>\<open>_seen_hashes\<close>. The SHA-256 hex digest
  is a parameter \<open>H\<close> of the model.
\<close>

record Deduplicator =
  similarity_threshold :: rat
  seen_hashes :: "string set"

definition Deduplicator_init :: "rat \<Rightarrow> Deduplicator" where
  "Deduplicator_init thr = \<lparr>similarity_threshold = thr, seen_hashes = {}\<rparr>"

definition normalize_char :: "char \<Rightarrow> char" where
  "normalize_char c = (if is_lower c \<or> is_digit c \<or> c = CHR '' '' then c else CHR '' '')"

definition normalize_for_hash :: "string \<Rightarrow> string" where
  "normalize_for_hash txt =
     strip (re_sub multi_space_match '' '' (map normalize_char (lower txt)))"

definition content_hash :: "(string \<Rightarrow> string) \<Rightarrow> string \<Rightarrow> string" where
  "content_hash H txt = H (normalize_for_hash txt)"

definition ngram_fingerprint :: "string \<Rightarrow> nat \<Rightarrow> string set" where
  "ngram_fingerprint txt n =
     (let normalized = normalize_for_hash txt
      in if length normalized < n then {normalized}
         else set (map (\<lambda>i. take n (drop i normalized)) [0 ..< length normalized - n + 1]))"

definition jaccard_similarity :: "string set \<Rightarrow> string set \<Rightarrow> rat" where
  "jaccard_similarity set_a set_b =
     (if set_a = {} \<or> set_b = {} then 0
      else (let intersection = card (set_a \<inter> set_b); union = card (set_a \<union> set_b)
            in if 0 < union then of_nat intersection / of_nat union else 0))"

text \<open>
  One round of the loop of \<^verbatim>\<open>deduplicate\<close>, on the triple
  \<^verbatim>\<open>(self._seen_hashes, fingerprints, unique)\<close>. The inner loop with its \<^verbatim>\<open>break\<close>
  is \<open>list_ex\<close>. The counter \<^verbatim>\<open>duplicates_removed\<close> only feeds the log line and is left out.
\<close>

type_synonym dedup_state = "string set \<times> string set list \<times> CollectedItem list"

definition dedup_step :: "(string \<Rightarrow> string) \<Rightarrow> rat \<Rightarrow> dedup_state \<Rightarrow> CollectedItem \<Rightarrow> dedup_state" where
  "dedup_step H thr st item =
     (let combined = combined_text item
      in if strip combined = [] then st
         else if content_hash H combined \<in> fst st then st
         else if list_ex (\<lambda>existing_fp.
                    thr \<le> jaccard_similarity (ngram_fingerprint combined 3) existing_fp)
                   (fst (snd st))
         then st
         else (insert (content_hash H combined) (fst st),
               fst (snd st) @ [ngram_fingerprint combined 3],
               snd (snd st) @ [item]))"

definition dedup_loop :: "(string \<Rightarrow> string) \<Rightarrow> Deduplicator \<Rightarrow> CollectedItem list \<Rightarrow> dedup_state" where
  "dedup_loop H d items =
     foldl (dedup_step H (similarity_threshold d)) (seen_hashes d, [], []) items"

text \<open>
  \<^verbatim>\<open>deduplicate\<close> returns the kept items; the instance comes back with the hashes it
  has seen. \<^verbatim>\<open>fingerprints\<close> is a local variable and starts empty in every call.
\<close>

definition deduplicate ::
  "(string \<Rightarrow> string) \<Rightarrow> Deduplicator \<Rightarrow> CollectedItem list \<Rightarrow> Deduplicator \<times> CollectedItem list" where
  "deduplicate H d items =
     (let st = dedup_loop H d items
      in (d\<lparr>seen_hashes := fst st\<rparr>, snd (snd st)))"

definition reset :: "Deduplicator \<Rightarrow> Deduplicator" where
  "reset d = d\<lparr>seen_hashes := {}\<rparr>"

section \<open>models/emotion.py\<close>

definition EMOTION_LEXICON :: "(string list) dict" where
  "EMOTION_LEXICON =
     [
      (''joy'',
      [''happy'', ''love'', ''wonderful'', ''great'', ''amazing'', ''excellent'',
       ''beautiful'', ''celebrate'', ''delight'', ''fantastic'', ''glad'', ''cheerful'',
       ''pleased'', ''joy'', ''thrilled'', ''ecstatic'', ''bliss'', ''elated'',
       ''grateful'', ''optimistic'', ''success'', ''win'', ''triumph'', ''paradise'',
       ''brilliant'', ''superb'', ''awesome'', ''hope'', ''proud'', ''laugh'', ''smile'',
       ''fun'', ''enjoy'', ''peace'', ''comfort'', ''bright'', ''radiant'', ''warm'',
       ''kind'', ''generous'', ''uplift'', ''inspire'']),
      (''anger'',
      [''angry'', ''furious'', ''outrage'', ''rage'', ''hate'', ''hostile'', ''violent'',
       ''attack'', ''destroy'', ''war'', ''fight'', ''aggression'', ''resent'', ''bitter'',
       ''irritate'', ''annoy'', ''frustrate'', ''provoke'', ''enrage'', ''infuriate'',
       ''condemn'', ''denounce'', ''protest'', ''revolt'', ''clash'', ''conflict'',
       ''abuse'', ''exploit'', ''corruption'', ''injustice'', ''oppression'', ''tyranny'',
       ''bully'', ''harass'', ''threaten'', ''demand'', ''blame'', ''accuse'', ''betray'']),
      (''fear'',
      [''afraid'', ''fear'', ''terror'', ''panic'', ''scare'', ''dread'', ''horror'',
       ''threat'', ''danger'', ''risk'', ''crisis'', ''emergency'', ''alarm'', ''anxiety'',
       ''worry'', ''nervous'', ''concern'', ''caution'', ''warn'', ''hazard'', ''peril'',
       ''catastrophe'', ''disaster'', ''devastation'', ''collapse'', ''doom'', ''chaos'',
       ''plague'', ''epidemic'', ''pandemic'', ''vulnerable'', ''helpless'', ''desperate'',
       ''uncertain'', ''unstable'', ''volatile'', ''flee'', ''escape'', ''survive'']),
      (''sadness'',
      [''sad'', ''grief'', ''sorrow'', ''mourn'', ''tragic'', ''loss'', ''suffer'',
       ''pain'', ''hurt'', ''cry'', ''tears'', ''misery'', ''despair'', ''hopeless'',
       ''depress'', ''lonely'', ''abandon'', ''neglect'', ''regret'', ''disappoint'',
       ''fail'', ''defeat'', ''decline'', ''deteriorate'', ''poverty'', ''famine'',
       ''death'', ''die'', ''kill'', ''victim'', ''casualty'', ''funeral'', ''memorial'',
       ''devastate'', ''heartbreak'', ''anguish'', ''agony'', ''lament'', ''woe'']),
      (''surprise'',
      [''surprise'', ''shock'', ''astonish'', ''amaze'', ''stun'', ''unexpected'',
       ''sudden'', ''breaking'', ''unprecedented'', ''remarkable'', ''extraordinary'',
       ''incredible'', ''unbelievable'', ''dramatic'', ''revelation'', ''discover'',
       ''breakthrough'', ''miracle'', ''twist'', ''upset'', ''bombshell'',
       ''jaw-dropping'', ''alert'', ''flash'', ''interrupt'', ''announce'', ''reveal'',
       ''unveil'']),
      (''disgust'',
      [''disgust'', ''repulsive'', ''gross'', ''vile'', ''sick'', ''revolting'', ''nasty'',
       ''foul'', ''corrupt'', ''scandal'', ''fraud'', ''cheat'', ''deceive'', ''toxic'',
       ''contaminate'', ''pollute'', ''waste'', ''filth'', ''sleaze'', ''hypocrisy'',
       ''shameful'', ''despicable'', ''contempt'', ''loathe'', ''abhor'', ''obscene'',
       ''vulgar'', ''offensive'', ''grotesque'', ''perverse'']),
      (''trust'',
      [''trust'', ''reliable'', ''honest'', ''integrity'', ''loyal'', ''faithful'',
       ''secure'', ''safe'', ''stable'', ''protect'', ''support'', ''ally'', ''partner'',
       ''cooperate'', ''unite'', ''together'', ''solidarity'', ''agreement'', ''treaty'',
       ''peace'', ''harmony'', ''respect'', ''honor'', ''commit'', ''promise'', ''pledge'',
       ''transparent'', ''accountable'', ''responsible'', ''fair'', ''just'', ''equitable'']),
      (''anticipation'',
      [''expect'', ''anticipate'', ''predict'', ''forecast'', ''plan'', ''prepare'',
       ''upcoming'', ''future'', ''tomorrow'', ''next'', ''soon'', ''await'', ''pending'',
       ''potential'', ''prospect'', ''opportunity'', ''launch'', ''release'', ''debut'',
       ''election'', ''vote'', ''decision'', ''deadline'', ''schedule'', ''target'',
       ''goal'', ''ambition'', ''aspire'', ''strategy'', ''initiative'', ''proposal''])
     ]"

text \<open>
  \<^verbatim>\<open>_WORD_TO_EMOTIONS[w]\<close>: the categories that list the word, in the order of the
  lexicon; the empty list stands for a word that is not a key.
\<close>

definition WORD_TO_EMOTIONS :: "string \<Rightarrow> string list" where
  "WORD_TO_EMOTIONS w =
     concat (map (\<lambda>(emotion, ws). map (\<lambda>_. emotion) (filter (\<lambda>w'. w' = w) ws)) EMOTION_LEXICON)"

text \<open>
  \<^verbatim>\<open>re.findall(r"\b[a-z]+\b", s)\<close>, scanning from the left; the flag says whether the
  character before the current position is a word character. A match needs a word
  boundary in front, the maximal run of lower-case letters, and a word boundary behind;
  scanning goes on behind a match, and one character further where there is none.
\<close>

function findall_words :: "bool \<Rightarrow> string \<Rightarrow> string list" where
  "findall_words prev [] = []"
| "findall_words prev (c # cs) =
     (let run = takeWhile is_lower (c # cs); rest = dropWhile is_lower (c # cs)
      in if \<not> prev \<and> run \<noteq> [] \<and> (case rest of [] \<Rightarrow> True | r # _ \<Rightarrow> \<not> is_word r)
         then run # findall_words True rest
         else findall_words (is_word c) cs)"
  by pat_completeness auto
termination
proof (relation "measure (\<lambda>(prev, s). length s)", goal_cases)
  case 1
  show ?case by simp
next
  case (2 prev c cs run rest)
  then have "is_lower c" by (auto split: if_splits)
  with 2 show ?case by (simp add: le_imp_less_Suc length_dropWhile_le)
next
  case 3
  then show ?case by simp
qed

text \<open>
  The counting loop of \<^verbatim>\<open>_analyze_lexicon\<close>: every category of every known word
  bumps its counter and the total.
\<close>

definition emotion_hits :: "string list \<Rightarrow> string list" where
  "emotion_hits ws = concat (map WORD_TO_EMOTIONS ws)"

definition count_hits :: "string list \<Rightarrow> (string \<Rightarrow> nat) \<times> nat" where
  "count_hits hits =
     foldl (\<lambda>acc emotion. ((fst acc)(emotion := fst acc emotion + 1), snd acc + 1))
       (\<lambda>_. 0, 0) hits"

definition lexicon_scores :: "(string \<Rightarrow> nat) \<Rightarrow> nat \<Rightarrow> rat dict" where
  "lexicon_scores emotion_counts total_hits =
     map (\<lambda>emotion.
            (emotion,
             if 0 < total_hits
             then py_round 4 (of_nat (emotion_counts emotion) / of_nat total_hits)
             else py_round 4 (1 / of_nat (length EMOTION_CATEGORIES))))
       EMOTION_CATEGORIES"

definition analyze_lexicon :: "string \<Rightarrow> py_error + EmotionResult" where
  "analyze_lexicon txt =
     (let ws = findall_words False (lower txt);
          ct = count_hits (emotion_hits ws);
          scs = lexicon_scores (fst ct) (snd ct)
      in if 0 < snd ct
         then (case max_key scs of
                 Inl err \<Rightarrow> Inl err
               | Inr dominant \<Rightarrow> Inr \<lparr>scores = scs, er_dominant_emotion = dominant\<rparr>)
         else Inr \<lparr>scores = scs, er_dominant_emotion = ''neutral''\<rparr>)"

section \<open>scoring/loosh\_index.py\<close>

text \<open>
  The configuration is a nested \<^verbatim>\<open>dict\<close>; a key that may be missing is an option.
\<close>

record loosh_config =
  lc_emotion_polarity :: "rat dict option"
  lc_baseline :: "rat option"
  lc_scale_min :: "rat option"
  lc_scale_max :: "rat option"

record config =
  cfg_loosh_index :: "loosh_config option"
  cfg_source_weights :: "rat dict option"

record LooshIndexCalculator =
  emotion_polarity :: "rat dict"
  baseline :: rat
  scale_min :: rat
  scale_max :: rat
  source_weights :: "rat dict"

record emotion_component =
  score :: rat
  polarity :: rat
  contribution :: rat

record loosh_components =
  comp_emotion_signal :: rat
  comp_sentiment_amplifier :: rat
  comp_baseline :: rat
  comp_raw_index :: rat
  comp_emotion_breakdown :: "emotion_component dict"

text \<open>\<open>components = None\<close> is the empty \<^verbatim>\<open>dict\<close> of the no-data result.\<close>

record LooshScore =
  index :: rat
  label :: string
  components :: "loosh_components option"

definition default_emotion_polarity :: "rat dict" where
  "default_emotion_polarity =
     [(''joy'', -1), (''anger'', 3 / 2), (''fear'', 9 / 5), (''sadness'', 6 / 5),
      (''surprise'', 3 / 10), (''disgust'', 1), (''trust'', - (4 / 5)),
      (''anticipation'', 1 / 5)]"

definition empty_loosh_config :: loosh_config where
  "empty_loosh_config =
     \<lparr>lc_emotion_polarity = None, lc_baseline = None, lc_scale_min = None,
      lc_scale_max = None\<rparr>"

definition opt_get :: "'a option \<Rightarrow> 'a \<Rightarrow> 'a" where
  "opt_get v dflt = (case v of None \<Rightarrow> dflt | Some x \<Rightarrow> x)"

text \<open>
  \<^verbatim>\<open>LooshIndexCalculator.__init__\<close>. The constructor has no \<^verbatim>\<open>raise\<close> and no
  check of the table it stores; the result type keeps the error branch visible.
\<close>

definition LooshIndexCalculator_init :: "config \<Rightarrow> py_error + LooshIndexCalculator" where
  "LooshIndexCalculator_init cfg =
     (let loosh_cfg = opt_get (cfg_loosh_index cfg) empty_loosh_config
      in Inr \<lparr>emotion_polarity = opt_get (lc_emotion_polarity loosh_cfg) default_emotion_polarity,
              baseline = opt_get (lc_baseline loosh_cfg) 50,
              scale_min = opt_get (lc_scale_min loosh_cfg) 0,
              scale_max = opt_get (lc_scale_max loosh_cfg) 100,
              source_weights = opt_get (cfg_source_weights cfg) []\<rparr>)"

definition label_of :: "rat \<Rightarrow> string" where
  "label_of i =
     (if i < 20 then ''Very Calm''
      else if i < 35 then ''Calm''
      else if i < 45 then ''Slightly Calm''
      else if i < 55 then ''Neutral''
      else if i < 65 then ''Slightly Elevated''
      else if i < 75 then ''Elevated''
      else if i < 85 then ''High''
      else ''Very High'')"

text \<open>Step 1 of \<^verbatim>\<open>calculate\<close>: the loop over \<^verbatim>\<open>emotions.items()\<close>.\<close>

definition emotion_signal_of :: "rat dict \<Rightarrow> rat dict \<Rightarrow> rat" where
  "emotion_signal_of pol emos =
     foldl (\<lambda>acc (e, s). acc + s * dict_get pol e 0) 0 emos"

definition emotion_components_of :: "rat dict \<Rightarrow> rat dict \<Rightarrow> emotion_component dict" where
  "emotion_components_of pol emos =
     map (\<lambda>(e, s). (e, \<lparr>score = s, polarity = dict_get pol e 0,
                          contribution = py_round 4 (s * dict_get pol e 0)\<rparr>)) emos"

text \<open>
  Step 3: the loop over \<^verbatim>\<open>source_breakdown.items()\<close>, carrying
  \<^verbatim>\<open>(weighted_signal, total_weight)\<close>; a source whose weight is not positive is skipped.
\<close>

definition source_step ::
  "LooshIndexCalculator \<Rightarrow> rat \<times> rat \<Rightarrow> string \<times> source_entry \<Rightarrow> rat \<times> rat" where
  "source_step c acc sb =
     (let weight = dict_get (source_weights c) (fst sb) 0
      in if weight \<le> 0 then acc
         else (fst acc + emotion_signal_of (emotion_polarity c) (se_emotions (snd sb)) * weight,
               snd acc + weight))"

definition source_totals :: "LooshIndexCalculator \<Rightarrow> source_entry dict \<Rightarrow> rat \<times> rat" where
  "source_totals c sbs = foldl (source_step c) (0, 0) sbs"

definition final_emotion_signal :: "LooshIndexCalculator \<Rightarrow> AggregatedResult \<Rightarrow> rat" where
  "final_emotion_signal c a =
     (let emotion_signal = emotion_signal_of (emotion_polarity c) (emotions a)
      in if source_breakdown a \<noteq> [] \<and> source_weights c \<noteq> []
         then (let wt = source_totals c (source_breakdown a)
               in if 0 < snd wt then fst wt / snd wt else emotion_signal)
         else emotion_signal)"

definition sentiment_amplifier_of :: "AggregatedResult \<Rightarrow> rat" where
  "sentiment_amplifier_of a =
     1 + (dict_get (sentiment a) ''negative'' 0 - dict_get (sentiment a) ''positive'' 0) * (1 / 2)"

definition calculate :: "LooshIndexCalculator \<Rightarrow> AggregatedResult \<Rightarrow> LooshScore" where
  "calculate c a =
     (if items_analyzed a = 0
      then \<lparr>index = baseline c, label = ''No Data'', components = None\<rparr>
      else
        (let emotion_signal = final_emotion_signal c a;
             sentiment_amplifier = sentiment_amplifier_of a;
             raw_index = baseline c + emotion_signal * sentiment_amplifier * 25;
             idx = max (scale_min c) (min (scale_max c) (py_round 1 raw_index))
         in \<lparr>index = idx, label = label_of idx,
             components = Some
               \<lparr>comp_emotion_signal = py_round 4 emotion_signal,
                comp_sentiment_amplifier = py_round 4 sentiment_amplifier,
                comp_baseline = baseline c,
                comp_raw_index = py_round 2 raw_index,
                comp_emotion_breakdown =
                  emotion_components_of (emotion_polarity c) (emotions a)\<rparr>\<rparr>))"

section \<open>Specification-level notions\<close>

text \<open>
  The argmax with ties going to the earliest entry, in the specification's words: the
  key of the first entry whose value is the maximum of all values.
\<close>

definition is_first_argmax :: "rat dict \<Rightarrow> string \<Rightarrow> bool" where
  "is_first_argmax d k =
     (d \<noteq> [] \<and>
      (case find (\<lambda>kv. snd kv = Max (set (map snd d))) d of
         None \<Rightarrow> False
       | Some kv \<Rightarrow> fst kv = k))"

abbreviation fingerprint_of :: "CollectedItem \<Rightarrow> string set" where
  "fingerprint_of item \<equiv> ngram_fingerprint (combined_text item) 3"

abbreviation hash_of :: "(string \<Rightarrow> string) \<Rightarrow> CollectedItem \<Rightarrow> string" where
  "hash_of H item \<equiv> content_hash H (combined_text item)"

text \<open>
  The three reasons for which the loop of \<^verbatim>\<open>deduplicate\<close> skips an item, given the
  hashes seen so far and the items kept so far in the running call.
\<close>

definition is_duplicate ::
  "(string \<Rightarrow> string) \<Rightarrow> rat \<Rightarrow> string set \<Rightarrow> CollectedItem list \<Rightarrow> CollectedItem \<Rightarrow> bool" where
  "is_duplicate H thr seen kept x =
     (strip (combined_text x) = [] \<or> hash_of H x \<in> seen
      \<or> (\<exists>y\<in>set kept. thr \<le> jaccard_similarity (fingerprint_of x) (fingerprint_of y)))"

section \<open>Concrete inputs\<close>

text \<open>The calculator of the default configuration, and one with a baseline below its scale.\<close>

abbreviation default_calculator :: LooshIndexCalculator where
  "default_calculator \<equiv>
     \<lparr>emotion_polarity = default_emotion_polarity, baseline = 50, scale_min = 0,
      scale_max = 100, source_weights = []\<rparr>"

abbreviation high_scale_config :: config where
  "high_scale_config \<equiv>
     \<lparr>cfg_loosh_index = Some \<lparr>lc_emotion_polarity = None, lc_baseline = Some 50,
                               lc_scale_min = Some 60, lc_scale_max = Some 100\<rparr>,
      cfg_source_weights = None\<rparr>"

abbreviation high_scale_calculator :: LooshIndexCalculator where
  "high_scale_calculator \<equiv>
     \<lparr>emotion_polarity = default_emotion_polarity, baseline = 50, scale_min = 60,
      scale_max = 100, source_weights = []\<rparr>"





abbreviation fear_result :: AggregatedResult where
  "fear_result \<equiv>
     \<lparr>items_analyzed = 1,
      sentiment = [(''positive'', 0), (''neutral'', 0), (''negative'', 1)],
      emotions = [(''joy'', 0), (''anger'', 0), (''fear'', 1), (''sadness'', 0),
                  (''surprise'', 0), (''disgust'', 0), (''trust'', 0), (''anticipation'', 0)],
      source_breakdown = [], dominant_emotion = ''fear'', avg_compound = - 1\<rparr>"

text \<open>Items of one source; the digest of the examples is the identity on canonical strings.\<close>

abbreviation item_of :: "string \<Rightarrow> CollectedItem" where
  "item_of t \<equiv>
     \<lparr>item_text = t, source_name = ''test'', source_category = ''rss_news'', url = None,
      title = None\<rparr>"

abbreviation fresh_deduplicator :: Deduplicator where
  "fresh_deduplicator \<equiv> Deduplicator_init (17 / 20)"

abbreviation plain_aggregator :: Aggregator where
  "plain_aggregator \<equiv> \<lparr>agg_source_weights = []\<rparr>"

abbreviation even_sentiment :: SentimentResult where
  "even_sentiment \<equiv> \<lparr>positive = 33 / 100, neutral = 17 / 50, negative = 33 / 100, compound = 0\<rparr>"

text \<open>The lexicon result of a text with one hit each for joy, anger and fear.\<close>

abbreviation thirds_emotion :: EmotionResult where
  "thirds_emotion \<equiv>
     \<lparr>scores = [(''joy'', 3333 / 10000), (''anger'', 3333 / 10000), (''fear'', 3333 / 10000),
                (''sadness'', 0), (''surprise'', 0), (''disgust'', 0), (''trust'', 0),
                (''anticipation'', 0)],
      er_dominant_emotion = ''joy''\<rparr>"


section \<open>Rounding\<close>









section \<open>The composite index\<close>











text \<open>
  Claim C4, as amended. With no items the index is the baseline, unclamped, and the
  label is "No Data". With items the index lies within the scale whenever
  \<open>scale_min \<le> scale_max\<close>. So the index lies within the scale for every result
  whenever the baseline does.
\<close>

theorem C4_index_within_scale:
  "(items_analyzed a = 0 \<longrightarrow>
      index (calculate c a) = baseline c \<and> label (calculate c a) = ''No Data'')
   \<and> (items_analyzed a \<noteq> 0 \<longrightarrow> scale_min c \<le> scale_max c \<longrightarrow>
      scale_min c \<le> index (calculate c a) \<and> index (calculate c a) \<le> scale_max c)
   \<and> (scale_min c \<le> baseline c \<longrightarrow> baseline c \<le> scale_max c \<longrightarrow>
      scale_min c \<le> index (calculate c a) \<and> index (calculate c a) \<le> scale_max c)"
  by (auto simp: calculate_def Let_def)

theorem C4_index_within_scale_witness:
  "(items_analyzed AggregatedResult_default = 0
    \<and> index (calculate default_calculator AggregatedResult_default) = 50
    \<and> label (calculate default_calculator AggregatedResult_default) = ''No Data'')
   \<and> (items_analyzed fear_result \<noteq> 0
    \<and> scale_min default_calculator \<le> baseline default_calculator
    \<and> baseline default_calculator \<le> scale_max default_calculator
    \<and> 0 \<le> index (calculate default_calculator fear_result)
    \<and> index (calculate default_calculator fear_result) \<le> 100)"
  using C4_index_within_scale [of AggregatedResult_default default_calculator]
        C4_index_within_scale [of fear_result default_calculator]
  by (simp add: AggregatedResult_default_def)

text \<open>
  Claim C4 as stated fails: with \<open>baseline = 50\<close> and a scale of 60 to 100 the
  no-data result has index 50, below \<open>scale_min\<close>.
\<close>

theorem C4_counterexample:
  "LooshIndexCalculator_init high_scale_config = Inr high_scale_calculator
   \<and> \<not> (scale_min high_scale_calculator
          \<le> index (calculate high_scale_calculator AggregatedResult_default)
        \<and> index (calculate high_scale_calculator AggregatedResult_default)
          \<le> scale_max high_scale_calculator)"
  by (simp add: LooshIndexCalculator_init_def opt_get_def calculate_def
      AggregatedResult_default_def)

text \<open>
  Claim C8. On an empty input the batch cleaner returns the empty list, the deduplicator
  keeps nothing, \<open>aggregate\<close> returns the default result, which has a zero count and no
  source entries, and \<open>calculate\<close> on that result returns the baseline score labelled
  "No Data" with no components. None of them raises.
\<close>

theorem C8_empty_batch_defaults:
  "clean_batch unescape tc [] = []
   \<and> snd (deduplicate H d []) = []
   \<and> aggregate ag [] sentiments emos = Inr AggregatedResult_default
   \<and> items_analyzed AggregatedResult_default = 0
   \<and> source_breakdown AggregatedResult_default = []
   \<and> calculate c AggregatedResult_default
       = \<lparr>index = baseline c, label = ''No Data'', components = None\<rparr>"
  by (simp add: clean_batch_def deduplicate_def dedup_loop_def
      aggregate_def AggregatedResult_default_def calculate_def)


section \<open>The normalizer\<close>

lemma length_slice_to: "0 \<le> m \<Longrightarrow> int (length (slice_to m s)) \<le> m"
  by (simp add: slice_to_def)

text \<open>
  Claim C10, as amended. The empty string is rejected whatever the configuration. When
  \<open>max_length\<close> is not negative, a returned string is at most \<open>max_length\<close> long.
\<close>

theorem C10_clean_empty_and_length:
  "clean unescape tc [] = None
   \<and> (0 \<le> max_length tc \<longrightarrow> clean unescape tc txt = Some s \<longrightarrow> int (length s) \<le> max_length tc)"
  by (auto simp: clean_def Let_def length_slice_to split: if_splits)

theorem C10_clean_empty_and_length_witness:
  "clean (\<lambda>s. s) \<lparr>min_length = 0, max_length = 50\<rparr> [] = None
   \<and> 0 \<le> max_length \<lparr>min_length = 10, max_length = 20\<rparr>
   \<and> clean (\<lambda>s. s) \<lparr>min_length = 10, max_length = 20\<rparr>
        ''<p>Hello <b>world</b> and good morning everyone</p>'' = Some ''Hello world and good''
   \<and> int (length ''Hello world and good'') \<le> max_length \<lparr>min_length = 10, max_length = 20\<rparr>"
proof -
  have c: "clean (\<lambda>s. s) \<lparr>min_length = 10, max_length = 20\<rparr>
        ''<p>Hello <b>world</b> and good morning everyone</p>'' = Some ''Hello world and good''"
    by code_simp
  have m: "0 \<le> max_length \<lparr>min_length = 10, max_length = 20\<rparr>" by simp
  from C10_clean_empty_and_length [of "\<lambda>s. s" "\<lparr>min_length = 10, max_length = 20\<rparr>"
        "''<p>Hello <b>world</b> and good morning everyone</p>''" "''Hello world and good''"] c m
  have "int (length ''Hello world and good'') \<le> max_length \<lparr>min_length = 10, max_length = 20\<rparr>"
    by blast
  moreover have "clean (\<lambda>s. s) \<lparr>min_length = 0, max_length = 50\<rparr> [] = None"
    using C10_clean_empty_and_length [of "\<lambda>s. s" "\<lparr>min_length = 0, max_length = 50\<rparr>"] by blast
  ultimately show ?thesis using c m by blast
qed

text \<open>
  Claim C10 as stated fails for a negative \<open>max_length\<close>: the slice
  \<^verbatim>\<open>text[:-1]\<close> drops the last character only, and with \<open>min_length = 0\<close> the
  four remaining characters are returned.
\<close>

theorem C10_counterexample:
  "clean (\<lambda>s. s) \<lparr>min_length = 0, max_length = - 1\<rparr> ''hello'' = Some ''hell''
   \<and> \<not> int (length ''hell'') \<le> max_length \<lparr>min_length = 0, max_length = - 1\<rparr>"
  by code_simp

section \<open>The aggregator\<close>




lemma map_fst_normalize_emotions: "map fst (normalize_emotions g) = map fst g"
  by (simp add: normalize_emotions_def Let_def case_prod_beta comp_def)

lemma aggregate_emotions:
  assumes "items \<noteq> []" "aggregate ag items sentiments emos = Inr r"
  shows "emotions r = normalize_emotions (global_emotion_means (length items) emos)"
  using assms by (auto simp: aggregate_def Let_def split: if_splits sum.splits)



lemma aggregate_dominant:
  assumes "items \<noteq> []" "aggregate ag items sentiments emos = Inr r"
  shows "max_key (emotions r) = Inr (dominant_emotion r)"
  using assms by (auto simp: aggregate_def Let_def split: if_splits sum.splits)



section \<open>The emotion classifier\<close>

lemma max_key_from_split:
  "\<forall>x\<in>set pre0. snd x < snd best \<Longrightarrow> \<forall>x\<in>set mid. snd x \<le> snd best \<Longrightarrow>
   \<exists>pre v post. pre0 @ best # mid @ rest = pre @ (max_key_from best rest, v) # post
     \<and> (\<forall>x\<in>set pre. snd x < v) \<and> (\<forall>x\<in>set post. snd x \<le> v)"
proof (induction rest arbitrary: best pre0 mid)
  case Nil
  have "pre0 @ best # mid @ [] = pre0 @ (max_key_from best [], snd best) # mid"
    by simp
  with Nil show ?case by blast
next
  case (Cons kv rest)
  show ?case
  proof (cases "snd best < snd kv")
    case True
    have "\<forall>x\<in>set (pre0 @ best # mid). snd x < snd kv"
      using Cons.prems True by (auto intro: less_trans le_less_trans)
    from Cons.IH [OF this, of "[]"] True show ?thesis by simp
  next
    case False
    have "\<forall>x\<in>set (mid @ [kv]). snd x \<le> snd best"
      using Cons.prems False by auto
    from Cons.IH [OF Cons.prems(1) this] False show ?thesis by simp
  qed
qed

lemma split_is_first_argmax:
  assumes "d = pre @ (k, v) # post" "\<forall>x\<in>set pre. snd x < v" "\<forall>x\<in>set post. snd x \<le> v"
  shows "is_first_argmax d k"
proof -
  have m: "Max (set (map snd d)) = v"
  proof (rule Max_eqI)
    show "finite (set (map snd d))" by simp
    show "v \<in> set (map snd d)" using assms(1) by force
    show "y \<le> v" if "y \<in> set (map snd d)" for y
      using that assms by (auto simp: less_imp_le)
  qed
  have "find (\<lambda>kv. snd kv = v) d = Some (k, v)"
    using assms(1,2) by (induction pre arbitrary: d) auto
  with m assms(1) show ?thesis by (simp add: is_first_argmax_def)
qed

lemma max_key_is_first_argmax:
  assumes "max_key d = Inr k"
  shows "is_first_argmax d k"
proof (cases d)
  case Nil
  with assms show ?thesis by (simp add: max_key_def)
next
  case (Cons kv rest)
  with assms have k: "k = max_key_from kv rest" by (simp add: max_key_def)
  from max_key_from_split [of "[]" kv "[]" rest]
  obtain pre v post where "kv # rest = pre @ (max_key_from kv rest, v) # post"
    "\<forall>x\<in>set pre. snd x < v" "\<forall>x\<in>set post. snd x \<le> v"
    by auto
  with Cons k show ?thesis by (auto intro: split_is_first_argmax)
qed

lemma max_key_nonempty: "d \<noteq> [] \<Longrightarrow> \<exists>k. max_key d = Inr k"
  by (cases d) (simp_all add: max_key_def)

lemma count_hits_eq: "count_hits hits = (\<lambda>e. count_list hits e, length hits)"
proof -
  have "foldl (\<lambda>acc emotion. ((fst acc)(emotion := fst acc emotion + 1), snd acc + 1)) (c, t) hits
        = (\<lambda>e. c e + count_list hits e, t + length hits)" for c :: "string \<Rightarrow> nat" and t :: nat
    by (induction hits arbitrary: c t) (auto simp: fun_eq_iff)
  from this [of "\<lambda>_. 0" 0] show ?thesis by (simp add: count_hits_def)
qed

lemma emotion_hits_empty_iff: "emotion_hits ws = [] \<longleftrightarrow> (\<forall>w\<in>set ws. WORD_TO_EMOTIONS w = [])"
  by (simp add: emotion_hits_def)


lemma map_fst_lexicon_scores: "map fst (lexicon_scores c t) = EMOTION_CATEGORIES"
  by (simp add: lexicon_scores_def comp_def)


lemma analyze_lexicon_hits:
  assumes "emotion_hits (findall_words False (lower txt)) \<noteq> []"
  shows "\<exists>r. analyze_lexicon txt = Inr r
     \<and> scores r = map (\<lambda>e. (e, py_round 4
            (of_nat (count_list (emotion_hits (findall_words False (lower txt))) e)
             / of_nat (length (emotion_hits (findall_words False (lower txt)))))))
          EMOTION_CATEGORIES
     \<and> is_first_argmax (scores r) (er_dominant_emotion r)"
proof -
  let ?hits = "emotion_hits (findall_words False (lower txt))"
  let ?scs = "lexicon_scores (\<lambda>e. count_list ?hits e) (length ?hits)"
  have "?scs \<noteq> []" by (simp add: lexicon_scores_def EMOTION_CATEGORIES_def)
  then obtain k where k: "max_key ?scs = Inr k" using max_key_nonempty by blast
  have "analyze_lexicon txt = Inr \<lparr>scores = ?scs, er_dominant_emotion = k\<rparr>"
    using assms k by (simp add: analyze_lexicon_def Let_def count_hits_eq)
  moreover have "?scs = map (\<lambda>e. (e, py_round 4 (of_nat (count_list ?hits e) / of_nat (length ?hits))))
          EMOTION_CATEGORIES"
    using assms by (simp add: lexicon_scores_def)
  ultimately show ?thesis using max_key_is_first_argmax [OF k] by simp
qed




text \<open>
  Claim C9, as amended. The dominant category of a lexicon result with at least one
  hit, and of the corpus-wide distribution of a non-empty input, is the first of the 8
  categories, in the fixed order, whose fraction is maximal. A lexicon result without
  hits is labelled "neutral" instead.
\<close>

theorem C9_dominant_is_first_argmax:
  "((\<exists>w\<in>set (findall_words False (lower txt)). WORD_TO_EMOTIONS w \<noteq> []) \<longrightarrow>
      analyze_lexicon txt = Inr e \<longrightarrow>
      map fst (scores e) = EMOTION_CATEGORIES
      \<and> is_first_argmax (scores e) (er_dominant_emotion e))
   \<and> (items \<noteq> [] \<longrightarrow> aggregate ag items sentiments emos = Inr r \<longrightarrow>
      map fst (emotions r) = EMOTION_CATEGORIES
      \<and> is_first_argmax (emotions r) (dominant_emotion r))"
proof -
  have a: "map fst (scores e) = EMOTION_CATEGORIES
      \<and> is_first_argmax (scores e) (er_dominant_emotion e)"
    if h: "\<exists>w\<in>set (findall_words False (lower txt)). WORD_TO_EMOTIONS w \<noteq> []"
      and e: "analyze_lexicon txt = Inr e"
  proof -
    from h have "emotion_hits (findall_words False (lower txt)) \<noteq> []"
      by (simp add: emotion_hits_empty_iff)
    from analyze_lexicon_hits [OF this] e show ?thesis
      by (auto simp: comp_def)
  qed
  have b: "map fst (emotions r) = EMOTION_CATEGORIES
      \<and> is_first_argmax (emotions r) (dominant_emotion r)"
    if n: "items \<noteq> []" and r: "aggregate ag items sentiments emos = Inr r"
  proof -
    have "emotions r = normalize_emotions (global_emotion_means (length items) emos)"
      by (rule aggregate_emotions [OF n r])
    then have "map fst (emotions r) = EMOTION_CATEGORIES"
      by (simp add: map_fst_normalize_emotions global_emotion_means_def comp_def)
    with max_key_is_first_argmax [OF aggregate_dominant [OF n r]] show ?thesis by simp
  qed
  from a b show ?thesis by blast
qed

theorem C9_dominant_is_first_argmax_witness:
  "emotion_hits (findall_words False (lower ''peace'')) \<noteq> []
   \<and> \<not> isl (analyze_lexicon ''peace'')
   \<and> is_first_argmax (scores (projr (analyze_lexicon ''peace'')))
        (er_dominant_emotion (projr (analyze_lexicon ''peace'')))
   \<and> dict_get (scores (projr (analyze_lexicon ''peace''))) ''joy'' 0
       = dict_get (scores (projr (analyze_lexicon ''peace''))) ''trust'' 0
   \<and> er_dominant_emotion (projr (analyze_lexicon ''peace'')) = ''joy''
   \<and> [item_of ''test''] \<noteq> []
   \<and> \<not> isl (aggregate plain_aggregator [item_of ''test''] [even_sentiment] [thirds_emotion])
   \<and> is_first_argmax
        (emotions (projr
           (aggregate plain_aggregator [item_of ''test''] [even_sentiment] [thirds_emotion])))
        (dominant_emotion (projr
           (aggregate plain_aggregator [item_of ''test''] [even_sentiment] [thirds_emotion])))
   \<and> dominant_emotion (projr
        (aggregate plain_aggregator [item_of ''test''] [even_sentiment] [thirds_emotion])) = ''joy''"
proof -
  let ?p = "analyze_lexicon ''peace''"
  let ?a = "aggregate plain_aggregator [item_of ''test''] [even_sentiment] [thirds_emotion]"
  have h: "\<exists>w\<in>set (findall_words False (lower ''peace'')). WORD_TO_EMOTIONS w \<noteq> []"
    by code_simp
  have ip: "\<not> isl ?p" by code_simp
  have ia: "\<not> isl ?a" by code_simp
  have n: "[item_of ''test''] \<noteq> []" by simp
  have v: "dict_get (scores (projr ?p)) ''joy'' 0 = dict_get (scores (projr ?p)) ''trust'' 0
           \<and> er_dominant_emotion (projr ?p) = ''joy''
           \<and> dominant_emotion (projr ?a) = ''joy''"
    by code_simp
  have rp: "?p = Inr (projr ?p)" using ip by simp
  have ra: "?a = Inr (projr ?a)" using ia by simp
  from C9_dominant_is_first_argmax [of "''peace''" "projr ?p"] h rp
  have cp: "is_first_argmax (scores (projr ?p)) (er_dominant_emotion (projr ?p))" by blast
  from C9_dominant_is_first_argmax [of _ _ "[item_of ''test'']" plain_aggregator
      "[even_sentiment]" "[thirds_emotion]" "projr ?a"] n ra
  have ca: "is_first_argmax (emotions (projr ?a)) (dominant_emotion (projr ?a))" by blast
  have h': "emotion_hits (findall_words False (lower ''peace'')) \<noteq> []"
    using h by (simp add: emotion_hits_empty_iff)
  from h' ip ia n v cp ca show ?thesis by blast
qed

text \<open>
  Claim C9 as stated fails for a per-item distribution without hits: all 8 fractions
  tie at 1/8, the first category in the fixed order is "joy", and the label is
  "neutral".
\<close>

theorem C9_counterexample:
  "scores (projr (analyze_lexicon ''Nothing to see here''))
     = map (\<lambda>e. (e, 1 / 8)) EMOTION_CATEGORIES
   \<and> is_first_argmax (scores (projr (analyze_lexicon ''Nothing to see here''))) ''joy''
   \<and> er_dominant_emotion (projr (analyze_lexicon ''Nothing to see here'')) = ''neutral''
   \<and> \<not> is_first_argmax (scores (projr (analyze_lexicon ''Nothing to see here'')))
         (er_dominant_emotion (projr (analyze_lexicon ''Nothing to see here'')))"
  by code_simp

section \<open>The deduplicator\<close>

lemma foldl_dedup_step:
  "\<exists>K. foldl (dedup_step H thr) (S, F, U) items
         = (S \<union> hash_of H ` set K, F @ map fingerprint_of K, U @ K)
       \<and> subseq K items"
proof (induction items arbitrary: S F U)
  case Nil
  have "foldl (dedup_step H thr) (S, F, U) []
        = (S \<union> hash_of H ` set [], F @ map fingerprint_of [], U @ [])" by simp
  then show ?case by blast
next
  case (Cons x xs)
  show ?case
  proof (cases "dedup_step H thr (S, F, U) x = (S, F, U)")
    case True
    from Cons.IH [of S F U] obtain K where
      "foldl (dedup_step H thr) (S, F, U) xs
         = (S \<union> hash_of H ` set K, F @ map fingerprint_of K, U @ K)" "subseq K xs"
      by blast
    with True show ?thesis by (auto intro: subseq_Cons')
  next
    case False
    then have s: "dedup_step H thr (S, F, U) x
                  = (insert (hash_of H x) S, F @ [fingerprint_of x], U @ [x])"
      by (auto simp: dedup_step_def Let_def split: if_splits)
    from Cons.IH [of "insert (hash_of H x) S" "F @ [fingerprint_of x]" "U @ [x]"] obtain K where
      k: "foldl (dedup_step H thr) (insert (hash_of H x) S, F @ [fingerprint_of x], U @ [x]) xs
         = (insert (hash_of H x) S \<union> hash_of H ` set K,
            (F @ [fingerprint_of x]) @ map fingerprint_of K, (U @ [x]) @ K)" "subseq K xs"
      by blast
    have "foldl (dedup_step H thr) (S, F, U) (x # xs)
          = (S \<union> hash_of H ` set (x # K), F @ map fingerprint_of (x # K), U @ (x # K))"
      using s k(1) by simp
    moreover have "subseq (x # K) (x # xs)" using k(2) by simp
    ultimately show ?thesis by blast
  qed
qed

lemma dedup_loop_shape:
  "\<exists>K. dedup_loop H d items
         = (seen_hashes d \<union> hash_of H ` set K, map fingerprint_of K, K)
       \<and> subseq K items"
  using foldl_dedup_step [of H "similarity_threshold d" "seen_hashes d" "[]" "[]" items]
  by (simp add: dedup_loop_def)

lemma dedup_loop_fingerprints:
  "fst (snd (dedup_loop H d items)) = map fingerprint_of (snd (deduplicate H d items))"
  using dedup_loop_shape [of H d items] by (auto simp: deduplicate_def Let_def)

lemma deduplicate_seen_hashes:
  "seen_hashes (fst (deduplicate H d items))
   = seen_hashes d \<union> hash_of H ` set (snd (deduplicate H d items))"
  using dedup_loop_shape [of H d items] by (auto simp: deduplicate_def Let_def)


lemma deduplicate_threshold:
  "similarity_threshold (fst (deduplicate H d items)) = similarity_threshold d"
  by (simp add: deduplicate_def Let_def)

lemma dedup_step_cases:
  "dedup_step H thr (seen, map fingerprint_of kept, kept) x
   = (if is_duplicate H thr seen kept x then (seen, map fingerprint_of kept, kept)
      else (insert (hash_of H x) seen, map fingerprint_of (kept @ [x]), kept @ [x]))"
  by (auto simp: dedup_step_def is_duplicate_def Let_def list_ex_iff)

lemma dedup_loop_snoc:
  "dedup_loop H d (xs @ [x])
   = dedup_step H (similarity_threshold d) (dedup_loop H d xs) x"
  by (simp add: dedup_loop_def)

lemma deduplicate_snoc:
  "snd (deduplicate H d (xs @ [x]))
   = (if is_duplicate H (similarity_threshold d) (seen_hashes (fst (deduplicate H d xs)))
           (snd (deduplicate H d xs)) x
      then snd (deduplicate H d xs)
      else snd (deduplicate H d xs) @ [x])"
proof -
  obtain K where k: "dedup_loop H d xs
      = (seen_hashes d \<union> hash_of H ` set K, map fingerprint_of K, K)"
    using dedup_loop_shape [of H d xs] by blast
  show ?thesis
    unfolding deduplicate_def Let_def dedup_loop_snoc k dedup_step_cases
    by simp
qed


text \<open>
  Claim C1, as amended. Within one call, an item is dropped exactly when it is blank, or
  its digest was seen before the call or belongs to an item kept earlier in the call, or
  its shingle set reaches the threshold against the shingle set of an item kept earlier
  in the same call; otherwise it is kept. The shingle sets used are those of the items
  kept in the running call and of no others: they are not kept between calls. The
  digests are: after a call the instance holds the digests it had plus those of the
  items it kept. \<open>reset\<close> empties the digests, which gives back a fresh instance with
  the same threshold.
\<close>

theorem C1_session_state:
  "snd (deduplicate H d (xs @ [x]))
     = (if strip (combined_text x) = []
           \<or> hash_of H x \<in> seen_hashes d \<union> hash_of H ` set (snd (deduplicate H d xs))
           \<or> (\<exists>y\<in>set (snd (deduplicate H d xs)).
                 similarity_threshold d \<le> jaccard_similarity (fingerprint_of x) (fingerprint_of y))
        then snd (deduplicate H d xs)
        else snd (deduplicate H d xs) @ [x])
   \<and> fst (snd (dedup_loop H d items)) = map fingerprint_of (snd (deduplicate H d items))
   \<and> seen_hashes (fst (deduplicate H d items))
       = seen_hashes d \<union> hash_of H ` set (snd (deduplicate H d items))
   \<and> similarity_threshold (fst (deduplicate H d items)) = similarity_threshold d
   \<and> seen_hashes (reset d) = {}
   \<and> reset d = Deduplicator_init (similarity_threshold d)"
proof -
  have "snd (deduplicate H d (xs @ [x]))
     = (if strip (combined_text x) = []
           \<or> hash_of H x \<in> seen_hashes d \<union> hash_of H ` set (snd (deduplicate H d xs))
           \<or> (\<exists>y\<in>set (snd (deduplicate H d xs)).
                 similarity_threshold d \<le> jaccard_similarity (fingerprint_of x) (fingerprint_of y))
        then snd (deduplicate H d xs)
        else snd (deduplicate H d xs) @ [x])"
    unfolding deduplicate_snoc is_duplicate_def deduplicate_seen_hashes by simp
  moreover have "reset d = Deduplicator_init (similarity_threshold d)"
    by (simp add: reset_def Deduplicator_init_def)
  moreover have "seen_hashes (reset d) = {}" by (simp add: reset_def)
  ultimately show ?thesis
    using dedup_loop_fingerprints [of H d items] deduplicate_seen_hashes [of H d items]
      deduplicate_threshold [of H d items]
    by blast
qed

theorem C1_session_state_witness:
  "snd (deduplicate (\<lambda>s. s) fresh_deduplicator ([item_of ''ha ha ha ha''] @ [item_of ''ha ha ha ha ha'']))
     = snd (deduplicate (\<lambda>s. s) fresh_deduplicator [item_of ''ha ha ha ha''])
   \<and> snd (deduplicate (\<lambda>s. s) fresh_deduplicator [item_of ''ha ha ha ha'']) = [item_of ''ha ha ha ha'']
   \<and> seen_hashes (reset (fst (deduplicate (\<lambda>s. s) fresh_deduplicator [item_of ''ha ha ha ha'']))) = {}"
proof -
  have k: "snd (deduplicate (\<lambda>s. s) fresh_deduplicator [item_of ''ha ha ha ha''])
           = [item_of ''ha ha ha ha'']"
    by code_simp
  have j: "similarity_threshold fresh_deduplicator
           \<le> jaccard_similarity (fingerprint_of (item_of ''ha ha ha ha ha''))
                (fingerprint_of (item_of ''ha ha ha ha''))"
    by code_simp
  have c: "strip (combined_text (item_of ''ha ha ha ha ha'')) = []
           \<or> hash_of (\<lambda>s. s) (item_of ''ha ha ha ha ha'')
               \<in> seen_hashes fresh_deduplicator
                 \<union> hash_of (\<lambda>s. s) ` set (snd (deduplicate (\<lambda>s. s) fresh_deduplicator [item_of ''ha ha ha ha'']))
           \<or> (\<exists>y\<in>set (snd (deduplicate (\<lambda>s. s) fresh_deduplicator [item_of ''ha ha ha ha''])).
                 similarity_threshold fresh_deduplicator
                 \<le> jaccard_similarity (fingerprint_of (item_of ''ha ha ha ha ha'')) (fingerprint_of y))"
    using k j by simp
  have t: "snd (deduplicate (\<lambda>s. s) fresh_deduplicator ([item_of ''ha ha ha ha''] @ [item_of ''ha ha ha ha ha'']))
     = snd (deduplicate (\<lambda>s. s) fresh_deduplicator [item_of ''ha ha ha ha''])"
    using C1_session_state [of "\<lambda>s. s" fresh_deduplicator "[item_of ''ha ha ha ha'']"
        "item_of ''ha ha ha ha ha''"] c
    by (simp only: if_True)
  have r: "seen_hashes (reset (fst (deduplicate (\<lambda>s. s) fresh_deduplicator [item_of ''ha ha ha ha'']))) = {}"
    using C1_session_state [of "\<lambda>s. s" "fst (deduplicate (\<lambda>s. s) fresh_deduplicator [item_of ''ha ha ha ha''])"]
    by blast
  from t k r show ?thesis by blast
qed

text \<open>
  Claim C1 as stated fails: an item whose shingle set equals that of an item accepted in
  an earlier call of the same instance (similarity 1, threshold 0.85, different
  canonical text) is kept by the later call; the same two items in one call collapse to
  the first.
\<close>

theorem C1_counterexample:
  "similarity_threshold fresh_deduplicator
     \<le> jaccard_similarity (fingerprint_of (item_of ''ha ha ha ha ha''))
          (fingerprint_of (item_of ''ha ha ha ha''))
   \<and> snd (deduplicate (\<lambda>s. s) fresh_deduplicator [item_of ''ha ha ha ha''])
       = [item_of ''ha ha ha ha'']
   \<and> snd (deduplicate (\<lambda>s. s)
        (fst (deduplicate (\<lambda>s. s) fresh_deduplicator [item_of ''ha ha ha ha'']))
        [item_of ''ha ha ha ha ha''])
       = [item_of ''ha ha ha ha ha'']
   \<and> snd (deduplicate (\<lambda>s. s) fresh_deduplicator
        [item_of ''ha ha ha ha'', item_of ''ha ha ha ha ha''])
       = [item_of ''ha ha ha ha'']"
  by code_simp




end
